theory Spec2Isabelle
  imports Main
begin

section \<open>Python values, exceptions and string primitives\<close>

text \<open>
  The module \<^verbatim>\<open>pym/portage/env/loaders.py\<close> is Python 2 code: a line read from a
  file opened with mode \<^verbatim>\<open>'rb'\<close> is a byte string, modelled as \<^typ>\<open>string\<close>.
  Python objects whose shape matters (the values stored in a data mapping, the objects
  handed to and returned by the loaders) are values of \<open>pyval\<close>. \<open>PyEnviron\<close> is the
  object \<^verbatim>\<open>os.environ\<close>, a mapping from strings to strings that is not an instance
  of \<^verbatim>\<open>dict\<close>.
\<close>

datatype pyval =
    PyNone
  | PyStr string
  | PyList "pyval list"
  | PyTuple "pyval list"
  | PyDict "(pyval \<times> pyval) list"
  | PyEnviron "(string \<times> string) list"

datatype error = TypeError | ValueError | AttributeError | IOError | NotImplementedError

text \<open>\<^verbatim>\<open>isinstance(x, dict)\<close>.\<close>

fun isinstance_dict :: "pyval \<Rightarrow> bool" where
  "isinstance_dict (PyDict _) = True"
| "isinstance_dict _ = False"

text \<open>
  The characters that \<^verbatim>\<open>str.strip()\<close> and \<^verbatim>\<open>str.split()\<close> treat as whitespace
  on a byte string: space, tab, line feed, vertical tab, form feed, carriage return.
\<close>

definition isspace :: "char \<Rightarrow> bool" where
  "isspace c = (c \<in> set [CHR '' '', CHR 0x09, CHR 0x0A, CHR 0x0B, CHR 0x0C, CHR 0x0D])"

text \<open>\<^verbatim>\<open>s.strip()\<close>: drop leading and trailing whitespace.\<close>

definition strip :: "string \<Rightarrow> string" where
  "strip s = rev (dropWhile isspace (rev (dropWhile isspace s)))"

text \<open>\<^verbatim>\<open>s.startswith(p)\<close> and \<^verbatim>\<open>s.endswith(p)\<close>, called on an instance.\<close>

definition startswith :: "string \<Rightarrow> string \<Rightarrow> bool" where
  "startswith s p = (take (length p) s = p)"

definition endswith :: "string \<Rightarrow> string \<Rightarrow> bool" where
  "endswith s p = (length p \<le> length s \<and> drop (length s - length p) s = p)"

text \<open>
  \<^verbatim>\<open>s.split()\<close> with no separator: the tokens are the maximal runs of non-whitespace
  characters; no empty token is produced. \<open>cur\<close> is the token being read.
\<close>

fun split_ws_from :: "string \<Rightarrow> string \<Rightarrow> string list" where
  "split_ws_from cur [] = (if cur = [] then [] else [cur])"
| "split_ws_from cur (c # cs) =
     (if isspace c then (if cur = [] then split_ws_from [] cs else cur # split_ws_from [] cs)
      else split_ws_from (cur @ [c]) cs)"

definition split_ws :: "string \<Rightarrow> string list" where
  "split_ws s = split_ws_from [] s"

text \<open>
  \<^verbatim>\<open>s.split(sep)\<close> with a one-character separator: the string is cut at every
  occurrence of \<open>sep\<close> and empty segments are kept, so the result is never empty.
\<close>

fun split_sep_from :: "char \<Rightarrow> string \<Rightarrow> string \<Rightarrow> string list" where
  "split_sep_from sep cur [] = [cur]"
| "split_sep_from sep cur (c # cs) =
     (if c = sep then cur # split_sep_from sep [] cs
      else split_sep_from sep (cur @ [c]) cs)"

definition split_sep :: "char \<Rightarrow> string \<Rightarrow> string list" where
  "split_sep sep s = split_sep_from sep [] s"

text \<open>\<^verbatim>\<open>"%s" % n\<close> for an integer \<open>n\<close>: its decimal representation.\<close>

definition digit_char :: "nat \<Rightarrow> char" where
  "digit_char d = ''0123456789'' ! d"

fun str_nat :: "nat \<Rightarrow> string" where
  "str_nat n = (if n < 10 then [digit_char n] else str_nat (n div 10) @ [digit_char (n mod 10)])"

declare str_nat.simps [simp del]

definition str_int :: "int \<Rightarrow> string" where
  "str_int i = (if i < 0 then ''-'' @ str_nat (nat (- i)) else str_nat (nat i))"

text \<open>
  \<^verbatim>\<open>x.append(v)\<close>: only a list has the method; on any other object the attribute
  lookup raises \<^verbatim>\<open>AttributeError\<close>.
\<close>

fun py_append :: "pyval \<Rightarrow> pyval \<Rightarrow> error + pyval" where
  "py_append (PyList xs) v = Inr (PyList (xs @ [v]))"
| "py_append _ v = Inl AttributeError"

section \<open>Loaders\<close>

text \<open>
  \<^verbatim>\<open>DataLoader.__init__\<close>: a missing validator (\<^verbatim>\<open>None\<close>) is replaced by one that
  accepts every key.
\<close>

definition DataLoader_init :: "(string \<Rightarrow> bool) option \<Rightarrow> (string \<Rightarrow> bool)" where
  "DataLoader_init validator = (case validator of None \<Rightarrow> (\<lambda>key. True) | Some f \<Rightarrow> f)"

text \<open>\<^verbatim>\<open>DataLoader.load\<close> has no implementation.\<close>

definition DataLoader_load :: "error + pyval" where
  "DataLoader_load = Inl NotImplementedError"

subsection \<open>EnvLoader\<close>

text \<open>\<^verbatim>\<open>EnvLoader.load\<close>: \<^verbatim>\<open>return os.environ\<close>. The process environment is a parameter.\<close>

definition EnvLoader_load :: "(string \<times> string) list \<Rightarrow> pyval" where
  "EnvLoader_load os_environ = PyEnviron os_environ"

subsection \<open>TestTextLoader\<close>

record TestTextLoader =
  data :: pyval
  errors :: pyval

definition TestTextLoader_init :: "(string \<Rightarrow> bool) option \<Rightarrow> TestTextLoader" where
  "TestTextLoader_init validator = \<lparr>data = PyDict [], errors = PyDict []\<rparr>"

text \<open>
  \<^verbatim>\<open>setData\<close> either stores its argument or raises; the object after the call is
  returned in both cases, next to the exception if there is one.
\<close>

definition setData :: "pyval \<Rightarrow> TestTextLoader \<Rightarrow> error option \<times> TestTextLoader" where
  "setData text self =
     (if isinstance_dict text then (None, self\<lparr>data := text\<rparr>)
      else (Some ValueError, self))"

definition setErrors :: "pyval \<Rightarrow> TestTextLoader \<Rightarrow> TestTextLoader" where
  "setErrors errs self = self\<lparr>errors := errs\<rparr>"

definition TestTextLoader_load :: "TestTextLoader \<Rightarrow> pyval" where
  "TestTextLoader_load self = PyTuple [data self, errors self]"

subsection \<open>FileLoader and its line parsers\<close>

text \<open>
  A file loader holds its configured path and its validator. The data mapping maps a key
  to a Python value; the error collection maps a source path to its list of messages.
  \<^verbatim>\<open>errors.setdefault(k, []).append(msg)\<close> is \<open>errors_append\<close>.
\<close>

record FileLoader =
  fname :: string
  validate :: "string \<Rightarrow> bool"

type_synonym data_map = "string \<rightharpoonup> pyval"
type_synonym error_map = "string \<rightharpoonup> string list"

definition FileLoader_init :: "string \<Rightarrow> (string \<Rightarrow> bool) option \<Rightarrow> FileLoader" where
  "FileLoader_init filename validator =
     \<lparr>fname = filename, validate = DataLoader_init validator\<rparr>"

definition errors_append :: "error_map \<Rightarrow> string \<Rightarrow> string \<Rightarrow> error_map" where
  "errors_append errs k msg =
     errs(k \<mapsto> (case errs k of None \<Rightarrow> [] | Some l \<Rightarrow> l) @ [msg])"

text \<open>\<^verbatim>\<open>FileLoader.lineParser\<close> is abstract.\<close>

definition FileLoader_lineParser ::
  "FileLoader \<Rightarrow> string \<Rightarrow> int \<Rightarrow> data_map \<Rightarrow> error_map \<Rightarrow> error + (data_map \<times> error_map)" where
  "FileLoader_lineParser self line line_num dat errs = Inl NotImplementedError"

definition ItemFileLoader_lineParser ::
  "FileLoader \<Rightarrow> string \<Rightarrow> int \<Rightarrow> data_map \<Rightarrow> error_map \<Rightarrow> error + (data_map \<times> error_map)" where
  "ItemFileLoader_lineParser self line0 line_num dat errs =
     (let line = strip line0 in
      if startswith line ''#'' then Inr (dat, errs)
      else if length line = 0 then Inr (dat, errs)
      else
        let split = split_ws line in
        if length split = 0 then
          Inr (dat, errors_append errs (fname self)
            (''Malformed data at line: '' @ str_int (line_num + 1) @ '', data: '' @ line))
        else
          let key = split ! 0 in
          if \<not> validate self key then
            Inr (dat, errors_append errs (fname self)
              (''Validation failed at line: '' @ str_int (line_num + 1) @ '', data '' @ key))
          else Inr (dat(key \<mapsto> PyNone), errs))"

definition KeyListFileLoader_lineParser ::
  "FileLoader \<Rightarrow> string \<Rightarrow> int \<Rightarrow> data_map \<Rightarrow> error_map \<Rightarrow> error + (data_map \<times> error_map)" where
  "KeyListFileLoader_lineParser self line0 line_num dat errs =
     (let line = strip line0 in
      if startswith line ''#'' then Inr (dat, errs)
      else if length line = 0 then Inr (dat, errs)
      else
        let split = split_ws line in
        if length split < 2 then
          Inr (dat, errors_append errs (fname self)
            (''Malformed data at line: '' @ str_int (line_num + 1) @ '', data: '' @ line))
        else
          let key = split ! 0; value = PyList (map PyStr (drop 1 split)) in
          if \<not> validate self key then
            Inr (dat, errors_append errs (fname self)
              (''Validation failed at line: '' @ str_int (line_num + 1) @ '', data '' @ key))
          else
            (case dat key of
               Some old \<Rightarrow>
                 (case py_append old value of
                    Inl e \<Rightarrow> Inl e
                  | Inr new \<Rightarrow> Inr (dat(key \<mapsto> new), errs))
             | None \<Rightarrow> Inr (dat(key \<mapsto> value), errs)))"

definition KeyValuePairFileLoader_lineParser ::
  "FileLoader \<Rightarrow> string \<Rightarrow> int \<Rightarrow> data_map \<Rightarrow> error_map \<Rightarrow> error + (data_map \<times> error_map)" where
  "KeyValuePairFileLoader_lineParser self line0 line_num dat errs =
     (let line = strip line0 in
      if startswith line ''#'' then Inr (dat, errs)
      else if length line = 0 then Inr (dat, errs)
      else
        let split = split_sep CHR ''='' line in
        if length split < 2 then
          Inr (dat, errors_append errs (fname self)
            (''Malformed data at line: '' @ str_int (line_num + 1) @ '', data '' @ line))
        else
          let key = split ! 0; value = PyList (map PyStr (drop 1 split)) in
          if key = [] then
            Inr (dat, errors_append errs (fname self)
              (''Malformed key at line: '' @ str_int (line_num + 1) @ '', key '' @ key))
          else if \<not> validate self key then
            Inr (dat, errors_append errs (fname self)
              (''Validation failed at line: '' @ str_int (line_num + 1) @ '', data '' @ key))
          else
            (case dat key of
               Some old \<Rightarrow>
                 (case py_append old value of
                    Inl e \<Rightarrow> Inl e
                  | Inr new \<Rightarrow> Inr (dat(key \<mapsto> new), errs))
             | None \<Rightarrow> Inr (dat(key \<mapsto> value), errs)))"

text \<open>
  Method dispatch: \<^verbatim>\<open>self.lineParser\<close> is looked up in the class of the loader.
\<close>

datatype loader_class = FileLoader_class | ItemFileLoader_class | KeyListFileLoader_class
  | KeyValuePairFileLoader_class

fun lineParser ::
  "loader_class \<Rightarrow> FileLoader \<Rightarrow> string \<Rightarrow> int \<Rightarrow> data_map \<Rightarrow> error_map \<Rightarrow>
     error + (data_map \<times> error_map)" where
  "lineParser FileLoader_class = FileLoader_lineParser"
| "lineParser ItemFileLoader_class = ItemFileLoader_lineParser"
| "lineParser KeyListFileLoader_class = KeyListFileLoader_lineParser"
| "lineParser KeyValuePairFileLoader_class = KeyValuePairFileLoader_lineParser"

subsection \<open>The file system and RecursiveFileLoader\<close>

text \<open>
  A file is the list of the lines that iterating over it yields; a directory lists its
  entries by name. The file system maps a path to the node found there.
\<close>

datatype fsnode = File "string list" | Dir "(string \<times> fsnode) list"

type_synonym filesystem = "string \<rightharpoonup> fsnode"

fun is_dir :: "fsnode \<Rightarrow> bool" where
  "is_dir (Dir _) = True"
| "is_dir (File _) = False"

definition os_path_isdir :: "filesystem \<Rightarrow> string \<Rightarrow> bool" where
  "os_path_isdir fs p = (case fs p of Some nd \<Rightarrow> is_dir nd | None \<Rightarrow> False)"

text \<open>\<^verbatim>\<open>open(fn, 'rb')\<close> followed by iteration over the lines.\<close>

definition py_open :: "filesystem \<Rightarrow> string \<Rightarrow> error + string list" where
  "py_open fs p = (case fs p of Some (File ls) \<Rightarrow> Inr ls | _ \<Rightarrow> Inl IOError)"

text \<open>
  \<^verbatim>\<open>str.startswith\<close> and \<^verbatim>\<open>str.endswith\<close> called through the class: the first
  positional argument is the string itself and a second one, the prefix or suffix, is
  required. The source calls \<^verbatim>\<open>str.startswith('.')\<close> and \<^verbatim>\<open>str.endswith('~')\<close>,
  with one argument.
\<close>

fun str_startswith :: "string list \<Rightarrow> error + bool" where
  "str_startswith [self, prefix] = Inr (startswith self prefix)"
| "str_startswith _ = Inl TypeError"

fun str_endswith :: "string list \<Rightarrow> error + bool" where
  "str_endswith [self, suffix] = Inr (endswith self suffix)"
| "str_endswith _ = Inl TypeError"

text \<open>
  \<^verbatim>\<open>filter(function, iterable)\<close> as the source calls it, with the list of file names
  in the place of the function and a truth value in the place of the iterable: a truth
  value cannot be iterated over.
\<close>

definition filter_py :: "string list \<Rightarrow> bool \<Rightarrow> error + string list" where
  "filter_py function iterable = Inl TypeError"

text \<open>
  A generator is modelled by the list of the items it yields and the exception that ends
  it, if any. \<open>gen_chain\<close> runs generators one after the other.
\<close>

type_synonym 'a generator = "'a list \<times> error option"

fun gen_chain :: "'a generator list \<Rightarrow> 'a generator" where
  "gen_chain [] = ([], None)"
| "gen_chain ((ys, Some e) # gs) = (ys, Some e)"
| "gen_chain ((ys, None) # gs) = (case gen_chain gs of (zs, r) \<Rightarrow> (ys @ zs, r))"

text \<open>
  The body of the loop over \<^verbatim>\<open>os.walk\<close>, for one directory: it returns the directory
  names left to descend into and the file names to yield.
\<close>

definition walk_body :: "string list \<Rightarrow> string list \<Rightarrow> error + (string list \<times> string list)" where
  "walk_body dirs files =
     (let dirs = (if ''CVS'' \<in> set dirs then remove1 ''CVS'' dirs else dirs) in
      case str_startswith [''.''] of Inl e \<Rightarrow> Inl e | Inr p \<Rightarrow>
      (case filter_py files p of Inl e \<Rightarrow> Inl e | Inr files \<Rightarrow>
      (case str_endswith [''~''] of Inl e \<Rightarrow> Inl e | Inr q \<Rightarrow>
      (case filter_py files q of Inl e \<Rightarrow> Inl e | Inr files \<Rightarrow>
         Inr (dirs, files)))))"

text \<open>
  \<^verbatim>\<open>os.walk\<close>, top down, with the loop body run on each directory before the walk
  descends into the directories the body left in \<^verbatim>\<open>dirs\<close>. The body does not use
  the path of the directory, and the names are yielded as they are.
\<close>

function walk :: "fsnode \<Rightarrow> string generator" where
  "walk (File ls) = ([], None)"
| "walk (Dir es) =
     (let dirs = map fst (filter (\<lambda>e. is_dir (snd e)) es);
          nondirs = map fst (filter (\<lambda>e. \<not> is_dir (snd e)) es)
      in case walk_body dirs nondirs of
           Inl e \<Rightarrow> ([], Some e)
         | Inr (dirs', ys) \<Rightarrow>
             gen_chain ((ys, None) #
               map (\<lambda>name. case map_of es name of Some nd \<Rightarrow> walk nd | None \<Rightarrow> ([], None))
                 dirs'))"
  by pat_completeness auto
termination
proof (relation "measure size")
  show "wf (measure (size :: fsnode \<Rightarrow> nat))" by simp
next
  fix es :: "(string \<times> fsnode) list" and name nd
  assume "map_of es name = Some nd"
  then have "size nd < size (Dir es)"
    by (induction es) (auto split: if_splits)
  then show "(nd, Dir es) \<in> measure size" by simp
qed

definition RecursiveFileLoader :: "filesystem \<Rightarrow> string \<Rightarrow> string generator" where
  "RecursiveFileLoader fs filename =
     (if os_path_isdir fs filename then
        (case fs filename of Some nd \<Rightarrow> walk nd | None \<Rightarrow> ([], None))
      else ([filename], None))"

subsection \<open>FileLoader.load\<close>

definition empty_data :: data_map where
  "empty_data = Map.empty"

definition empty_errors :: error_map where
  "empty_errors = Map.empty"

text \<open>\<^verbatim>\<open>enumerate(f)\<close>: the lines with their zero-based index.\<close>

definition enumerate_lines :: "string list \<Rightarrow> (int \<times> string) list" where
  "enumerate_lines ls = zip (map int [0..<length ls]) ls"

text \<open>The inner loop: the line parser is run on each line in turn.\<close>

fun parse_lines ::
  "(string \<Rightarrow> int \<Rightarrow> data_map \<Rightarrow> error_map \<Rightarrow> error + (data_map \<times> error_map)) \<Rightarrow>
     (int \<times> string) list \<Rightarrow> data_map \<times> error_map \<Rightarrow> error + (data_map \<times> error_map)" where
  "parse_lines func [] st = Inr st"
| "parse_lines func ((line_num, line) # rest) st =
     (case func line line_num (fst st) (snd st) of
        Inl e \<Rightarrow> Inl e
      | Inr st' \<Rightarrow> parse_lines func rest st')"

text \<open>The outer loop: each yielded path is opened and its lines are parsed.\<close>

fun load_files ::
  "filesystem \<Rightarrow> (string \<Rightarrow> int \<Rightarrow> data_map \<Rightarrow> error_map \<Rightarrow> error + (data_map \<times> error_map)) \<Rightarrow>
     string list \<Rightarrow> data_map \<times> error_map \<Rightarrow> error + (data_map \<times> error_map)" where
  "load_files fs func [] st = Inr st"
| "load_files fs func (fn # fns) st =
     (case py_open fs fn of
        Inl e \<Rightarrow> Inl e
      | Inr ls \<Rightarrow>
          (case parse_lines func (enumerate_lines ls) st of
             Inl e \<Rightarrow> Inl e
           | Inr st' \<Rightarrow> load_files fs func fns st'))"

text \<open>
  \<^verbatim>\<open>FileLoader.load\<close>: an exception that ends the enumerator is raised after the paths
  yielded before it have been read.
\<close>

definition FileLoader_load ::
  "filesystem \<Rightarrow> loader_class \<Rightarrow> FileLoader \<Rightarrow> error + (data_map \<times> error_map)" where
  "FileLoader_load fs cls self =
     (case RecursiveFileLoader fs (fname self) of
        (fns, ending) \<Rightarrow>
          (case load_files fs (lineParser cls self) fns (empty_data, empty_errors) of
             Inl e \<Rightarrow> Inl e
           | Inr st \<Rightarrow> (case ending of Some e \<Rightarrow> Inl e | None \<Rightarrow> Inr st)))"

text \<open>The value stored under a key in the data mapping of a result.\<close>

fun result_data :: "error + (data_map \<times> error_map) \<Rightarrow> string \<Rightarrow> pyval option" where
  "result_data (Inr st) k = fst st k"
| "result_data (Inl e) k = None"

fun result_errors :: "error + (data_map \<times> error_map) \<Rightarrow> string \<Rightarrow> string list option" where
  "result_errors (Inr st) k = snd st k"
| "result_errors (Inl e) k = None"

text \<open>
  A small file system to run the loaders on: two configuration files in the working
  directory, the first with a line without key and a good line, the second with a line
  without \<^verbatim>\<open>=\<close>.
\<close>

definition conf_files :: filesystem where
  "conf_files =
     [''a.conf'' \<mapsto> File [''=x\<newline>'', ''k=v\<newline>''],
      ''b.conf'' \<mapsto> File [''novalue\<newline>'']]"

section \<open>Properties\<close>

subsection \<open>Facts about the enumerator\<close>

lemma walk_Dir_raises: "walk (Dir es) = ([], Some TypeError)"
  by (simp add: walk_body_def)

lemma RecursiveFileLoader_Dir:
  "fs p = Some (Dir es) \<Longrightarrow> RecursiveFileLoader fs p = ([], Some TypeError)"
  by (simp add: RecursiveFileLoader_def os_path_isdir_def walk_body_def)

lemma RecursiveFileLoader_not_Dir:
  "\<not> os_path_isdir fs p \<Longrightarrow> RecursiveFileLoader fs p = ([p], None)"
  by (simp add: RecursiveFileLoader_def)

text \<open>
  C1. The specification has the enumerator, on a directory holding the files
  \<^verbatim>\<open>.hidden\<close>, \<^verbatim>\<open>backup~\<close> and \<^verbatim>\<open>real.conf\<close>, yield \<^verbatim>\<open>real.conf\<close> alone. The
  code evaluates \<^verbatim>\<open>str.startswith('.')\<close> in the first round of its loop, which raises
  \<^verbatim>\<open>TypeError\<close>: the enumerator yields nothing and ends with that exception.
\<close>

theorem RecursiveFileLoader_hidden_backup_real:
  "RecursiveFileLoader
     [''confdir'' \<mapsto>
        Dir [(''.hidden'', File []), (''backup~'', File []), (''real.conf'', File [])]]
     ''confdir'' = ([], Some TypeError)
   \<and> RecursiveFileLoader
     [''confdir'' \<mapsto>
        Dir [(''.hidden'', File []), (''backup~'', File []), (''real.conf'', File [])]]
     ''confdir'' \<noteq> ([''real.conf''], None)"
  by (simp add: RecursiveFileLoader_def os_path_isdir_def walk_body_def)

subsection \<open>EnvLoader and TestTextLoader\<close>

text \<open>
  C2. The specification has \<^verbatim>\<open>EnvLoader.load()\<close> return the pair of the environment and
  an empty error mapping, as the \<^verbatim>\<open>load\<close> methods of the other loaders return a pair.
  The code returns the environment object alone, which is not a pair.
\<close>

theorem EnvLoader_load_not_a_pair:
  "EnvLoader_load [(''HOME'', ''/root'')] = PyEnviron [(''HOME'', ''/root'')]
   \<and> EnvLoader_load [(''HOME'', ''/root'')]
       \<noteq> PyTuple [PyEnviron [(''HOME'', ''/root'')], PyDict []]"
  by (simp add: EnvLoader_load_def)

text \<open>
  C9. \<^verbatim>\<open>setData\<close> with an argument that is not a \<^verbatim>\<open>dict\<close> raises \<^verbatim>\<open>ValueError\<close> and
  leaves the loader as it was; \<^verbatim>\<open>load()\<close> on a loader fresh from its constructor
  returns the pair of two empty mappings.
\<close>

theorem TestTextLoader_setData_load:
  "(\<not> isinstance_dict text \<longrightarrow> setData text self = (Some ValueError, self))
   \<and> TestTextLoader_load (TestTextLoader_init validator) = PyTuple [PyDict [], PyDict []]"
  by (simp add: setData_def TestTextLoader_load_def TestTextLoader_init_def)

theorem TestTextLoader_setData_load_witness:
  "\<not> isinstance_dict (PyList [PyStr ''a''])
   \<and> setData (PyList [PyStr ''a''])
         \<lparr>data = PyDict [(PyStr ''k'', PyNone)], errors = PyDict []\<rparr>
       = (Some ValueError, \<lparr>data = PyDict [(PyStr ''k'', PyNone)], errors = PyDict []\<rparr>)
   \<and> TestTextLoader_load (TestTextLoader_init None) = PyTuple [PyDict [], PyDict []]"
  using TestTextLoader_setData_load
    [of "PyList [PyStr ''a'']"
        "\<lparr>data = PyDict [(PyStr ''k'', PyNone)], errors = PyDict []\<rparr>" None]
  by simp

subsection \<open>Comment and blank lines\<close>

text \<open>
  C6. A line whose stripped text is empty or starts with \<^verbatim>\<open>#\<close> leaves the data mapping
  and the error collection as they were, in each of the three line parsers.
\<close>

theorem lineParser_comment_or_blank:
  "strip line = [] \<or> startswith (strip line) ''#'' \<Longrightarrow>
     ItemFileLoader_lineParser self line line_num dat errs = Inr (dat, errs)
   \<and> KeyListFileLoader_lineParser self line line_num dat errs = Inr (dat, errs)
   \<and> KeyValuePairFileLoader_lineParser self line line_num dat errs = Inr (dat, errs)"
  by (auto simp add: ItemFileLoader_lineParser_def KeyListFileLoader_lineParser_def
      KeyValuePairFileLoader_lineParser_def Let_def)

theorem lineParser_comment_or_blank_witness:
  "(strip ''#comment'' = [] \<or> startswith (strip ''#comment'') ''#'')
   \<and> ItemFileLoader_lineParser (FileLoader_init ''conf'' None) ''#comment'' 0
         empty_data empty_errors = Inr (empty_data, empty_errors)
   \<and> KeyListFileLoader_lineParser (FileLoader_init ''conf'' None) ''#comment'' 0
         empty_data empty_errors = Inr (empty_data, empty_errors)
   \<and> KeyValuePairFileLoader_lineParser (FileLoader_init ''conf'' None) ''#comment'' 0
         empty_data empty_errors = Inr (empty_data, empty_errors)
   \<and> (strip [CHR '' '', CHR 0x09, CHR 0x0A] = []
        \<or> startswith (strip [CHR '' '', CHR 0x09, CHR 0x0A]) ''#'')
   \<and> ItemFileLoader_lineParser (FileLoader_init ''conf'' None) [CHR '' '', CHR 0x09, CHR 0x0A] 1
         empty_data empty_errors = Inr (empty_data, empty_errors)
   \<and> KeyListFileLoader_lineParser (FileLoader_init ''conf'' None) [CHR '' '', CHR 0x09, CHR 0x0A] 1
         empty_data empty_errors = Inr (empty_data, empty_errors)
   \<and> KeyValuePairFileLoader_lineParser (FileLoader_init ''conf'' None)
         [CHR '' '', CHR 0x09, CHR 0x0A] 1
         empty_data empty_errors = Inr (empty_data, empty_errors)"
proof -
  have a: "strip ''#comment'' = [] \<or> startswith (strip ''#comment'') ''#''"
    by (simp add: strip_def isspace_def startswith_def)
  have b: "strip [CHR '' '', CHR 0x09, CHR 0x0A] = []
      \<or> startswith (strip [CHR '' '', CHR 0x09, CHR 0x0A]) ''#''"
    by (simp add: strip_def isspace_def)
  show ?thesis
    using a b
      lineParser_comment_or_blank
        [OF a, of "FileLoader_init ''conf'' None" 0 empty_data empty_errors]
      lineParser_comment_or_blank
        [OF b, of "FileLoader_init ''conf'' None" 1 empty_data empty_errors]
    by simp
qed

subsection \<open>Stripping and splitting\<close>

lemma strip_is_prefix: "\<exists>ws. dropWhile isspace s = strip s @ ws"
proof -
  let ?t = "dropWhile isspace s"
  have "?t = rev (takeWhile isspace (rev ?t) @ dropWhile isspace (rev ?t))"
    by simp
  also have "\<dots> = strip s @ rev (takeWhile isspace (rev ?t))"
    by (simp only: rev_append strip_def)
  finally show ?thesis by blast
qed

lemma strip_hd_not_space:
  assumes "strip s \<noteq> []"
  shows "\<not> isspace (hd (strip s))"
proof -
  obtain ws where eq: "dropWhile isspace s = strip s @ ws"
    using strip_is_prefix by blast
  with assms have "dropWhile isspace s \<noteq> []" by simp
  then have "\<not> isspace (hd (dropWhile isspace s))" by (rule hd_dropWhile)
  with eq assms show ?thesis by simp
qed

lemma split_ws_from_nonempty:
  "cur \<noteq> [] \<or> (\<exists>c \<in> set s. \<not> isspace c) \<Longrightarrow> split_ws_from cur s \<noteq> []"
  by (induction s arbitrary: cur) auto

lemma split_ws_strip_nonempty:
  assumes "strip s \<noteq> []"
  shows "split_ws (strip s) \<noteq> []"
proof -
  from assms have "hd (strip s) \<in> set (strip s)" by simp
  with strip_hd_not_space [OF assms] show ?thesis
    unfolding split_ws_def by (intro split_ws_from_nonempty) blast
qed

lemma split_sep_from_nonempty: "split_sep_from sep cur s \<noteq> []"
  by (induction s arbitrary: cur) auto

lemma split_sep_from_first:
  "sep \<notin> set key \<Longrightarrow>
     split_sep_from sep cur (key @ sep # rest) = (cur @ key) # split_sep_from sep [] rest"
  by (induction key arbitrary: cur) auto

lemma split_sep_first:
  "sep \<notin> set key \<Longrightarrow> split_sep sep (key @ sep # rest) = key # split_sep sep rest"
  by (simp add: split_sep_def split_sep_from_first)

lemma split_sep_nonempty: "split_sep sep s \<noteq> []"
  by (simp add: split_sep_def split_sep_from_nonempty)

subsection \<open>The error collection\<close>

lemma errors_append_neq: "errors_append errs k msg \<noteq> errs"
proof
  assume "errors_append errs k msg = errs"
  then have "errors_append errs k msg k = errs k" by simp
  then show False by (cases "errs k") (simp_all add: errors_append_def)
qed

lemma errors_append_inj:
  assumes "errors_append errs k m1 = errors_append errs k m2"
  shows "m1 = m2"
proof -
  from assms have "errors_append errs k m1 k = errors_append errs k m2 k" by simp
  then show ?thesis by (simp add: errors_append_def)
qed

lemma errors_append_other: "k' \<noteq> k \<Longrightarrow> errors_append errs k msg k' = errs k'"
  by (simp add: errors_append_def)

subsection \<open>The item-list parser\<close>

text \<open>
  C10. Once the stripped line is not empty, splitting it on whitespace gives at least one
  token, so the branch of \<^verbatim>\<open>ItemFileLoader.lineParser\<close> for a line without tokens is
  never taken: whatever the line, the parser does not append a message starting with
  \<^verbatim>\<open>Malformed data\<close> to the error collection.
\<close>

theorem ItemFileLoader_malformed_unreachable:
  "(strip line \<noteq> [] \<longrightarrow> split_ws (strip line) \<noteq> [])
   \<and> (\<forall>dat' rest. ItemFileLoader_lineParser self line line_num dat errs
        \<noteq> Inr (dat', errors_append errs (fname self) (''Malformed data'' @ rest)))"
proof (intro conjI impI allI)
  assume "strip line \<noteq> []"
  then show "split_ws (strip line) \<noteq> []"
    by (rule split_ws_strip_nonempty)
next
  fix dat' rest
  show "ItemFileLoader_lineParser self line line_num dat errs
        \<noteq> Inr (dat', errors_append errs (fname self) (''Malformed data'' @ rest))"
  proof (cases "strip line = []")
    case True
    then show ?thesis
      using errors_append_neq [of errs "fname self" "''Malformed data'' @ rest"]
      by (auto simp add: ItemFileLoader_lineParser_def Let_def)
  next
    case False
    then have "split_ws (strip line) \<noteq> []" by (rule split_ws_strip_nonempty)
    then show ?thesis
      using errors_append_neq [of errs "fname self" "''Malformed data'' @ rest"]
      by (auto simp add: ItemFileLoader_lineParser_def Let_def dest!: errors_append_inj)
  qed
qed

theorem ItemFileLoader_malformed_unreachable_witness:
  "strip '' item1 extra '' \<noteq> [] \<and> split_ws (strip '' item1 extra '') \<noteq> []
   \<and> ItemFileLoader_lineParser (FileLoader_init ''conf'' None) '' item1 extra '' 0
        empty_data empty_errors
       \<noteq> Inr (empty_data, errors_append empty_errors (fname (FileLoader_init ''conf'' None))
            (''Malformed data'' @ '' at line: 1, data: item1 extra''))"
proof -
  have a: "strip '' item1 extra '' \<noteq> []"
    by (simp add: strip_def isspace_def)
  from ItemFileLoader_malformed_unreachable
    [of "'' item1 extra ''" "FileLoader_init ''conf'' None" 0 empty_data empty_errors]
  show ?thesis using a by blast
qed

text \<open>
  C7. A line that is neither blank nor a comment and whose first token \<open>key\<close> passes the
  validator makes the parser store \<^verbatim>\<open>None\<close> under \<open>key\<close> and record no error. Parsing
  a line with the same first token again, at any line number, leaves the data mapping and
  the error collection exactly as the first parse left them.
\<close>

theorem ItemFileLoader_sets_None_idempotent:
  assumes "strip line \<noteq> []" and "\<not> startswith (strip line) ''#''"
    and "key = split_ws (strip line) ! 0" and "validate self key"
    and "strip line2 \<noteq> []" and "\<not> startswith (strip line2) ''#''"
    and "split_ws (strip line2) ! 0 = key"
  shows "ItemFileLoader_lineParser self line n dat errs = Inr (dat(key \<mapsto> PyNone), errs)
       \<and> ItemFileLoader_lineParser self line2 m (dat(key \<mapsto> PyNone)) errs
           = Inr (dat(key \<mapsto> PyNone), errs)"
proof -
  have "split_ws (strip line) \<noteq> []" "split_ws (strip line2) \<noteq> []"
    using assms(1,5) by (simp_all add: split_ws_strip_nonempty)
  then show ?thesis
    using assms by (simp add: ItemFileLoader_lineParser_def Let_def)
qed

theorem ItemFileLoader_sets_None_idempotent_witness:
  "strip ''item1 extra'' \<noteq> [] \<and> \<not> startswith (strip ''item1 extra'') ''#''
   \<and> ''item1'' = split_ws (strip ''item1 extra'') ! 0
   \<and> validate (FileLoader_init ''conf'' None) ''item1''
   \<and> strip ''item1'' \<noteq> [] \<and> \<not> startswith (strip ''item1'') ''#''
   \<and> split_ws (strip ''item1'') ! 0 = ''item1''
   \<and> ItemFileLoader_lineParser (FileLoader_init ''conf'' None) ''item1 extra'' 0
         empty_data empty_errors
       = Inr (empty_data(''item1'' \<mapsto> PyNone), empty_errors)
   \<and> ItemFileLoader_lineParser (FileLoader_init ''conf'' None) ''item1'' 3
         (empty_data(''item1'' \<mapsto> PyNone)) empty_errors
       = Inr (empty_data(''item1'' \<mapsto> PyNone), empty_errors)"
proof -
  have a: "strip ''item1 extra'' \<noteq> []" "\<not> startswith (strip ''item1 extra'') ''#''"
    "''item1'' = split_ws (strip ''item1 extra'') ! 0"
    "strip ''item1'' \<noteq> []" "\<not> startswith (strip ''item1'') ''#''"
    "split_ws (strip ''item1'') ! 0 = ''item1''"
    by (simp_all add: strip_def isspace_def startswith_def split_ws_def)
  have v: "validate (FileLoader_init ''conf'' None) ''item1''"
    by (simp add: FileLoader_init_def DataLoader_init_def)
  from ItemFileLoader_sets_None_idempotent
    [OF a(1) a(2) a(3) v a(4) a(5) a(6), of 0 empty_data empty_errors 3]
  show ?thesis using a v by simp
qed

subsection \<open>The key=value parser\<close>

lemma startswith_hash_append:
  "key \<noteq> [] \<Longrightarrow> startswith (key @ rest) ''#'' = startswith key ''#''"
  by (cases key) (simp_all add: startswith_def)

text \<open>
  C5. A line whose stripped text starts with \<^verbatim>\<open>=\<close>, so that the text before the first
  \<^verbatim>\<open>=\<close> is empty, makes the key=value parser append a \<^verbatim>\<open>Malformed key\<close> message under
  the loader's path and leave the data mapping as it was. The result is the same for every
  validator \<open>v\<close>: the validator has no part in it.
\<close>

theorem KeyValuePairFileLoader_empty_key:
  assumes "strip line = CHR ''='' # rest"
  shows "KeyValuePairFileLoader_lineParser (self\<lparr>validate := v\<rparr>) line line_num dat errs
      = Inr (dat, errors_append errs (fname self)
               (''Malformed key at line: '' @ str_int (line_num + 1) @ '', key ''))"
proof -
  have s: "split_sep CHR ''='' (strip line) = [] # split_sep CHR ''='' rest"
    using split_sep_first [of "CHR ''=''" "[]" rest] assms by simp
  have "length (split_sep CHR ''='' rest) \<noteq> 0"
    using split_sep_nonempty [of "CHR ''=''" rest] by simp
  then have l: "\<not> length (split_sep CHR ''='' (strip line)) < 2"
    using s by simp
  have "\<not> startswith (strip line) ''#''"
    using assms by (simp add: startswith_def)
  then show ?thesis
    using assms l s by (simp add: KeyValuePairFileLoader_lineParser_def Let_def)
qed

theorem KeyValuePairFileLoader_empty_key_witness:
  "strip ''=value'' = CHR ''='' # ''value''
   \<and> KeyValuePairFileLoader_lineParser
        ((FileLoader_init ''conf'' None)\<lparr>validate := (\<lambda>k. False)\<rparr>)
        ''=value'' 0 empty_data empty_errors
      = Inr (empty_data, errors_append empty_errors (fname (FileLoader_init ''conf'' None))
               (''Malformed key at line: '' @ str_int (0 + 1) @ '', key ''))
   \<and> result_errors (KeyValuePairFileLoader_lineParser
        ((FileLoader_init ''conf'' None)\<lparr>validate := (\<lambda>k. False)\<rparr>)
        ''=value'' 0 empty_data empty_errors) ''conf''
      = Some [''Malformed key at line: 1, key '']"
proof -
  have a: "strip ''=value'' = CHR ''='' # ''value''"
    by (simp add: strip_def isspace_def)
  have n: "str_int (0 + 1) = ''1''"
    by (simp add: str_int_def str_nat.simps digit_char_def)
  from KeyValuePairFileLoader_empty_key
    [OF a, where self = "FileLoader_init ''conf'' None" and v = "\<lambda>k. False"
      and line_num = 0 and dat = empty_data and errs = empty_errors]
  show ?thesis
    using a n by (simp add: errors_append_def empty_errors_def FileLoader_init_def)
qed

text \<open>
  C4. Let the stripped line be \<open>key\<close>, then \<^verbatim>\<open>=\<close>, then \<open>rest\<close>, where \<open>key\<close> is not
  empty, holds no \<^verbatim>\<open>=\<close> and does not start with \<^verbatim>\<open>#\<close>. With a validator that
  accepts every key and \<open>key\<close> not yet in the data mapping, the parser stores under
  \<open>key\<close> the list of the segments of \<open>rest\<close> between its \<^verbatim>\<open>=\<close> characters, in order, and
  records no error.
\<close>

theorem KeyValuePairFileLoader_segments:
  assumes "strip line = key @ CHR ''='' # rest" and "CHR ''='' \<notin> set key"
    and "key \<noteq> []" and "\<not> startswith key ''#''" and "dat key = None"
  shows "KeyValuePairFileLoader_lineParser (FileLoader_init filename None) line line_num dat errs
      = Inr (dat(key \<mapsto> PyList (map PyStr (split_sep CHR ''='' rest))), errs)"
proof -
  have s: "split_sep CHR ''='' (strip line) = key # split_sep CHR ''='' rest"
    using split_sep_first [OF assms(2)] assms(1) by simp
  have "length (split_sep CHR ''='' rest) \<noteq> 0"
    using split_sep_nonempty [of "CHR ''=''" rest] by simp
  then have l: "\<not> length (split_sep CHR ''='' (strip line)) < 2"
    using s by simp
  have c: "\<not> startswith (strip line) ''#''"
    using assms(1,3,4) by (simp add: startswith_hash_append)
  have ne: "strip line \<noteq> []"
    using assms(1) by simp
  show ?thesis
    using l s c ne assms(3,5)
    by (simp add: KeyValuePairFileLoader_lineParser_def Let_def FileLoader_init_def
        DataLoader_init_def)
qed

theorem KeyValuePairFileLoader_segments_witness:
  "strip ''a=b=c'' = ''a'' @ CHR ''='' # ''b=c'' \<and> CHR ''='' \<notin> set ''a'' \<and> ''a'' \<noteq> []
   \<and> \<not> startswith ''a'' ''#'' \<and> empty_data ''a'' = None
   \<and> KeyValuePairFileLoader_lineParser (FileLoader_init ''conf'' None) ''a=b=c'' 0
        empty_data empty_errors
      = Inr (empty_data(''a'' \<mapsto> PyList [PyStr ''b'', PyStr ''c'']), empty_errors)"
proof -
  have a: "strip ''a=b=c'' = ''a'' @ CHR ''='' # ''b=c''" "CHR ''='' \<notin> set ''a''"
    "''a'' \<noteq> []" "\<not> startswith ''a'' ''#''" "empty_data ''a'' = None"
    by (simp_all add: strip_def isspace_def startswith_def empty_data_def)
  have s: "split_sep CHR ''='' ''b=c'' = [''b'', ''c'']"
    by (simp add: split_sep_def)
  from KeyValuePairFileLoader_segments
    [where line = "''a=b=c''" and key = "''a''" and rest = "''b=c''" and dat = empty_data
      and filename = "''conf''" and line_num = 0 and errs = empty_errors, OF a]
  show ?thesis using a s by simp
qed

subsection \<open>The key-list parser\<close>

lemma strip_k_v1_v2:
  "strip ''k v1 v2'' = ''k v1 v2''" "split_ws ''k v1 v2'' = [''k'', ''v1'', ''v2'']"
  by (simp_all add: strip_def isspace_def split_ws_def)

lemma strip_k_v3:
  "strip ''k v3'' = ''k v3''" "split_ws ''k v3'' = [''k'', ''v3'']"
  by (simp_all add: strip_def isspace_def split_ws_def)

text \<open>
  What the parser does with a good line whose tokens are \<open>key\<close> and then \<open>value\<close>: a new
  key gets the token list; a key that holds a list gets the token list appended to that
  list as one element; a key that holds anything else makes \<^verbatim>\<open>append\<close> fail.
\<close>

lemma KeyListFileLoader_accumulate:
  assumes "strip line \<noteq> []" and "\<not> startswith (strip line) ''#''"
    and "split_ws (strip line) = key # value" and "value \<noteq> []" and "validate self key"
  shows "KeyListFileLoader_lineParser self line line_num dat errs =
    (case dat key of
       None \<Rightarrow> Inr (dat(key \<mapsto> PyList (map PyStr value)), errs)
     | Some (PyList xs) \<Rightarrow> Inr (dat(key \<mapsto> PyList (xs @ [PyList (map PyStr value)])), errs)
     | Some _ \<Rightarrow> Inl AttributeError)"
proof -
  have "\<not> length (split_ws (strip line)) < 2"
    using assms(3,4) by (cases "value") simp_all
  then show ?thesis
    using assms
    by (simp add: KeyListFileLoader_lineParser_def Let_def split: option.split pyval.split)
qed

text \<open>
  C3, as the specification states it: after \<^verbatim>\<open>k v1 v2\<close> the key \<^verbatim>\<open>k\<close> holds
  \<^verbatim>\<open>["v1","v2"]\<close>, and after \<^verbatim>\<open>k v3\<close> it holds the list of the two lists
  \<^verbatim>\<open>["v1","v2"]\<close> and \<^verbatim>\<open>["v3"]\<close>. The first half holds; the second does not, as the
  list stored by the first line is not wrapped.
\<close>

theorem KeyListFileLoader_nested_counterexample:
  "KeyListFileLoader_lineParser (FileLoader_init ''conf'' None) ''k v1 v2'' 0
     empty_data empty_errors
     = Inr (empty_data(''k'' \<mapsto> PyList [PyStr ''v1'', PyStr ''v2'']), empty_errors)
   \<and> result_data (KeyListFileLoader_lineParser (FileLoader_init ''conf'' None) ''k v3'' 1
        (empty_data(''k'' \<mapsto> PyList [PyStr ''v1'', PyStr ''v2''])) empty_errors) ''k''
     \<noteq> Some (PyList [PyList [PyStr ''v1'', PyStr ''v2''], PyList [PyStr ''v3'']])"
  by (simp add: KeyListFileLoader_lineParser_def Let_def strip_k_v1_v2 strip_k_v3
      startswith_def FileLoader_init_def DataLoader_init_def empty_data_def)

text \<open>
  C3, amended: with a validator that accepts every key and \<^verbatim>\<open>k\<close> not yet in the data
  mapping, after \<^verbatim>\<open>k v1 v2\<close> the key \<^verbatim>\<open>k\<close> holds \<^verbatim>\<open>["v1","v2"]\<close>, and after
  \<^verbatim>\<open>k v3\<close> it holds \<^verbatim>\<open>["v1","v2",["v3"]]\<close>: the token list of the later line is
  appended, as one element, to the flat token list that the first line stored.
\<close>

theorem KeyListFileLoader_repeated_key:
  assumes "dat ''k'' = None"
  shows "KeyListFileLoader_lineParser (FileLoader_init filename None) ''k v1 v2'' n dat errs
     = Inr (dat(''k'' \<mapsto> PyList [PyStr ''v1'', PyStr ''v2'']), errs)
   \<and> KeyListFileLoader_lineParser (FileLoader_init filename None) ''k v3'' m
        (dat(''k'' \<mapsto> PyList [PyStr ''v1'', PyStr ''v2''])) errs
     = Inr (dat(''k'' \<mapsto> PyList [PyStr ''v1'', PyStr ''v2'', PyList [PyStr ''v3'']]), errs)"
  using assms
  by (simp add: KeyListFileLoader_lineParser_def Let_def strip_k_v1_v2 strip_k_v3
      startswith_def FileLoader_init_def DataLoader_init_def)

theorem KeyListFileLoader_repeated_key_witness:
  "empty_data ''k'' = None
   \<and> KeyListFileLoader_lineParser (FileLoader_init ''conf'' None) ''k v1 v2'' 0
        empty_data empty_errors
     = Inr (empty_data(''k'' \<mapsto> PyList [PyStr ''v1'', PyStr ''v2'']), empty_errors)
   \<and> KeyListFileLoader_lineParser (FileLoader_init ''conf'' None) ''k v3'' 1
        (empty_data(''k'' \<mapsto> PyList [PyStr ''v1'', PyStr ''v2''])) empty_errors
     = Inr (empty_data(''k'' \<mapsto> PyList [PyStr ''v1'', PyStr ''v2'', PyList [PyStr ''v3'']]),
            empty_errors)"
proof -
  have a: "empty_data ''k'' = None"
    by (simp add: empty_data_def)
  from KeyListFileLoader_repeated_key
    [where dat = empty_data and filename = "''conf''" and n = 0 and m = 1
      and errs = empty_errors, OF a]
  show ?thesis using a by simp
qed

subsection \<open>The key of a recorded error\<close>

lemma fname_FileLoader_init: "fname (FileLoader_init filename validator) = filename"
  by (simp add: FileLoader_init_def)

lemma lineParser_errors:
  assumes "lineParser cls self line n dat errs = Inr (dat', errs')"
  shows "errs' = errs \<or> (\<exists>msg. errs' = errors_append errs (fname self) msg)"
proof (cases cls)
  case FileLoader_class
  with assms show ?thesis by (simp add: FileLoader_lineParser_def)
next
  case ItemFileLoader_class
  with assms show ?thesis
    by (auto simp add: ItemFileLoader_lineParser_def Let_def split: if_splits)
next
  case KeyListFileLoader_class
  with assms show ?thesis
    by (auto simp add: KeyListFileLoader_lineParser_def Let_def
        split: if_splits option.splits sum.splits)
next
  case KeyValuePairFileLoader_class
  with assms show ?thesis
    by (auto simp add: KeyValuePairFileLoader_lineParser_def Let_def
        split: if_splits option.splits sum.splits)
qed

lemma lineParser_errors_other:
  assumes "lineParser cls self line n dat errs = Inr st'" and "k \<noteq> fname self"
  shows "snd st' k = errs k"
proof -
  obtain dat' errs' where st': "st' = (dat', errs')" by (cases st')
  from assms(1) have "lineParser cls self line n dat errs = Inr (dat', errs')"
    by (simp only: st')
  from lineParser_errors [OF this] assms(2) show ?thesis
    unfolding st' by (auto simp add: errors_append_other)
qed

lemma parse_lines_errors_other:
  "parse_lines (lineParser cls self) ls st = Inr st' \<Longrightarrow> k \<noteq> fname self \<Longrightarrow>
     snd st' k = snd st k"
proof (induction ls arbitrary: st)
  case Nil
  then show ?case by simp
next
  case (Cons l ls)
  obtain n line where l: "l = (n, line)" by (cases l)
  from Cons.prems(1) obtain st1 where
    s1: "lineParser cls self line n (fst st) (snd st) = Inr st1" and
    s2: "parse_lines (lineParser cls self) ls st1 = Inr st'"
    unfolding l by (auto split: sum.splits)
  from Cons.IH [OF s2 Cons.prems(2)] lineParser_errors_other [OF s1 Cons.prems(2)]
  show ?case by simp
qed

lemma load_files_errors_other:
  "load_files fs (lineParser cls self) fns st = Inr st' \<Longrightarrow> k \<noteq> fname self \<Longrightarrow>
     snd st' k = snd st k"
proof (induction fns arbitrary: st)
  case Nil
  then show ?case by simp
next
  case (Cons fn fns)
  from Cons.prems(1) obtain ls st1 where
    s1: "parse_lines (lineParser cls self) (enumerate_lines ls) st = Inr st1" and
    s2: "load_files fs (lineParser cls self) fns st1 = Inr st'"
    by (auto split: sum.splits)
  from Cons.IH [OF s2 Cons.prems(2)] parse_lines_errors_other [OF s1 Cons.prems(2)]
  show ?case by simp
qed

text \<open>Loading a directory ends with the exception of the enumerator.\<close>

lemma FileLoader_load_Dir:
  "fs (fname self) = Some (Dir es) \<Longrightarrow> FileLoader_load fs cls self = Inl TypeError"
  by (simp add: FileLoader_load_def RecursiveFileLoader_Dir)

text \<open>
  C8. Whichever class the loader has, a line parser that returns leaves the error
  collection as it was or appends one message under the loader's configured path
  \<open>fname self\<close>. So the loop over any list of files changes no entry of the error collection
  under another key, whichever file is being read, and the error collection that
  \<^verbatim>\<open>load\<close> returns has no key other than \<open>fname self\<close>.
\<close>

theorem errors_keyed_by_fname:
  "(lineParser cls self line n dat errs = Inr (dat_p, errs_p) \<longrightarrow>
      errs_p = errs \<or> (\<exists>msg. errs_p = errors_append errs (fname self) msg))
   \<and> (load_files fs (lineParser cls self) fns (dat, errs) = Inr (dat_f, errs_f) \<longrightarrow>
      (\<forall>k. k \<noteq> fname self \<longrightarrow> errs_f k = errs k))
   \<and> (FileLoader_load fs cls self = Inr (dat_l, errs_l) \<longrightarrow> dom errs_l \<subseteq> {fname self})"
proof (intro conjI impI allI)
  assume "lineParser cls self line n dat errs = Inr (dat_p, errs_p)"
  then show "errs_p = errs \<or> (\<exists>msg. errs_p = errors_append errs (fname self) msg)"
    by (rule lineParser_errors)
next
  fix k
  assume "load_files fs (lineParser cls self) fns (dat, errs) = Inr (dat_f, errs_f)"
    and "k \<noteq> fname self"
  from load_files_errors_other [OF this] show "errs_f k = errs k" by simp
next
  assume a: "FileLoader_load fs cls self = Inr (dat_l, errs_l)"
  obtain fns ending where g: "RecursiveFileLoader fs (fname self) = (fns, ending)"
    by (cases "RecursiveFileLoader fs (fname self)")
  from a have l: "load_files fs (lineParser cls self) fns (empty_data, empty_errors)
      = Inr (dat_l, errs_l)"
    unfolding FileLoader_load_def g by (auto split: sum.splits option.splits)
  show "dom errs_l \<subseteq> {fname self}"
  proof
    fix k
    assume k: "k \<in> dom errs_l"
    show "k \<in> {fname self}"
    proof (rule ccontr)
      assume "k \<notin> {fname self}"
      then have "k \<noteq> fname self" by simp
      from load_files_errors_other [OF l this] have "errs_l k = None"
        by (simp add: empty_errors_def)
      with k show False by auto
    qed
  qed
qed

lemma KeyValuePair_line_without_key:
  "KeyValuePairFileLoader_lineParser (FileLoader_init f None) ''=x\<newline>'' 0 dat errs
     = Inr (dat, errors_append errs f ''Malformed key at line: 1, key '')"
  by (simp add: KeyValuePairFileLoader_lineParser_def strip_def isspace_def startswith_def
      split_sep_def Let_def FileLoader_init_def str_int_def str_nat.simps digit_char_def)

lemma KeyValuePair_good_line:
  "dat ''k'' = None \<Longrightarrow>
     KeyValuePairFileLoader_lineParser (FileLoader_init f None) ''k=v\<newline>'' 1 dat errs
     = Inr (dat(''k'' \<mapsto> PyList [PyStr ''v'']), errs)"
  by (simp add: KeyValuePairFileLoader_lineParser_def strip_def isspace_def startswith_def
      split_sep_def Let_def FileLoader_init_def DataLoader_init_def)

lemma KeyValuePair_line_without_eq:
  "KeyValuePairFileLoader_lineParser (FileLoader_init f None) ''novalue\<newline>'' 0 dat errs
     = Inr (dat, errors_append errs f ''Malformed data at line: 1, data novalue'')"
  by (simp add: KeyValuePairFileLoader_lineParser_def strip_def isspace_def startswith_def
      split_sep_def Let_def FileLoader_init_def str_int_def str_nat.simps digit_char_def)

lemma load_files_conf_files:
  "load_files conf_files (lineParser KeyValuePairFileLoader_class (FileLoader_init f None))
        [''a.conf'', ''b.conf''] (empty_data, empty_errors)
   = Inr (empty_data(''k'' \<mapsto> PyList [PyStr ''v'']),
          empty_errors(f \<mapsto> [''Malformed key at line: 1, key '',
                               ''Malformed data at line: 1, data novalue'']))"
  by (simp add: conf_files_def py_open_def enumerate_lines_def KeyValuePair_line_without_key
      KeyValuePair_good_line KeyValuePair_line_without_eq empty_data_def errors_append_def
      empty_errors_def)

lemma FileLoader_load_a_conf:
  "FileLoader_load conf_files KeyValuePairFileLoader_class (FileLoader_init ''a.conf'' None)
   = Inr (empty_data(''k'' \<mapsto> PyList [PyStr ''v'']),
          empty_errors(''a.conf'' \<mapsto> [''Malformed key at line: 1, key '']))"
  by (simp add: FileLoader_load_def RecursiveFileLoader_def os_path_isdir_def conf_files_def
      py_open_def enumerate_lines_def KeyValuePair_line_without_key KeyValuePair_good_line
      empty_data_def errors_append_def empty_errors_def fname_FileLoader_init)

theorem errors_keyed_by_fname_witness:
  "lineParser KeyValuePairFileLoader_class (FileLoader_init ''confdir'' None) ''=x\<newline>'' 0
       empty_data empty_errors
     = Inr (empty_data, errors_append empty_errors ''confdir'' ''Malformed key at line: 1, key '')
   \<and> load_files conf_files
        (lineParser KeyValuePairFileLoader_class (FileLoader_init ''confdir'' None))
        [''a.conf'', ''b.conf''] (empty_data, empty_errors)
     = Inr (empty_data(''k'' \<mapsto> PyList [PyStr ''v'']),
            empty_errors(''confdir'' \<mapsto> [''Malformed key at line: 1, key '',
                                          ''Malformed data at line: 1, data novalue'']))
   \<and> (empty_errors(''confdir'' \<mapsto> [''Malformed key at line: 1, key '',
                                     ''Malformed data at line: 1, data novalue''])) ''b.conf''
     = empty_errors ''b.conf''
   \<and> FileLoader_load conf_files KeyValuePairFileLoader_class (FileLoader_init ''a.conf'' None)
     = Inr (empty_data(''k'' \<mapsto> PyList [PyStr ''v'']),
            empty_errors(''a.conf'' \<mapsto> [''Malformed key at line: 1, key '']))
   \<and> dom (empty_errors(''a.conf'' \<mapsto> [''Malformed key at line: 1, key '']))
       \<subseteq> {fname (FileLoader_init ''a.conf'' None)}"
proof -
  let ?m1 = "''Malformed key at line: 1, key ''"
  let ?m2 = "''Malformed data at line: 1, data novalue''"
  let ?d = "empty_data(''k'' \<mapsto> PyList [PyStr ''v''])"
  have p: "lineParser KeyValuePairFileLoader_class (FileLoader_init ''confdir'' None)
      ''=x\<newline>'' 0 empty_data empty_errors
     = Inr (empty_data, errors_append empty_errors ''confdir'' ?m1)"
    by (simp add: KeyValuePair_line_without_key)
  have ne: "''b.conf'' \<noteq> fname (FileLoader_init ''confdir'' None)"
    by (simp add: fname_FileLoader_init)
  note l = load_files_conf_files [of "''confdir''"]
  note f = FileLoader_load_a_conf
  from errors_keyed_by_fname
    [where cls = KeyValuePairFileLoader_class and self = "FileLoader_init ''confdir'' None"
      and fs = conf_files and fns = "[''a.conf'', ''b.conf'']" and dat = empty_data
      and errs = empty_errors and dat_f = ?d
      and errs_f = "empty_errors(''confdir'' \<mapsto> [?m1, ?m2])"]
  have c2: "(empty_errors(''confdir'' \<mapsto> [?m1, ?m2])) ''b.conf'' = empty_errors ''b.conf''"
    using l ne by blast
  from errors_keyed_by_fname
    [where cls = KeyValuePairFileLoader_class and self = "FileLoader_init ''a.conf'' None"
      and fs = conf_files and dat_l = ?d and errs_l = "empty_errors(''a.conf'' \<mapsto> [?m1])"]
  have c3: "dom (empty_errors(''a.conf'' \<mapsto> [?m1])) \<subseteq> {fname (FileLoader_init ''a.conf'' None)}"
    using f by blast
  from p l c2 f c3 show ?thesis by blast
qed

end
